theory Spec2Isabelle
  imports Complex_Main
begin

section \<open>Python values, builtins and library calls used by the script\<close>

text \<open>
  The script \<^verbatim>\<open>apply_loudest_track_gain.py\<close> reads a tab-delimited report
  \<^verbatim>\<open>replaygain.csv\<close> per album directory, selects one gain and writes it into the tags
  of the audio files of the directory.

  Modelling decisions.
  \<^item> A Python \<^verbatim>\<open>float\<close> is modelled by the real number the double denotes. Comparison
    and \<^verbatim>\<open>min\<close> are exact on doubles, so they are the comparison and the minimum of
    the reals; the one arithmetic operation of the script, the subtraction of line 109, is
    the exact difference rounded to the nearest double, ties to even (\<open>float_sub\<close>), and
    the literal \<^verbatim>\<open>0.01\<close> is the double it denotes (\<open>double_0_01\<close>). The builtin
    \<^verbatim>\<open>float(s)\<close> is a parameter \<open>pf\<close> of the model: \<open>pf s = None\<close> stands for
    \<^verbatim>\<open>ValueError\<close>. Non-finite floats are outside the model.
  \<^item> A Python \<^verbatim>\<open>str\<close> is a \<open>string\<close>; \<^verbatim>\<open>str.lower\<close> lowercases the ASCII letters,
    which agrees with Python on every comparison the script makes (against
    \<^verbatim>\<open>"album"\<close>, \<^verbatim>\<open>".mp3"\<close> and \<^verbatim>\<open>".m4a"\<close>).
  \<^item> Exceptions are values of the type \<open>exn\<close>; a computation that may raise returns
    \<open>exn + 'a\<close>.
  \<^item> The logger is a list of structured records, appended to in order.
  \<^item> The tag library (mutagen) and the float formatting are opaque capabilities, the
    fields of the record \<open>platform\<close>; the store of audio files is an abstract type \<open>'d\<close>.
\<close>

datatype exn = ValueError | KeyError | AttributeError | TypeError | OSError | ID3NoHeaderError

datatype pyval = PyNone | PyStr string

type_synonym row = "string \<rightharpoonup> pyval"

definition lower_char :: "char \<Rightarrow> char" where
  "lower_char c =
     (case map_of (zip ''ABCDEFGHIJKLMNOPQRSTUVWXYZ'' ''abcdefghijklmnopqrstuvwxyz'') c of
        Some d \<Rightarrow> d
      | None \<Rightarrow> c)"

definition lower :: "string \<Rightarrow> string" where
  "lower s = map lower_char s"

text \<open>\<^verbatim>\<open>s.rfind(c)\<close>: the index of the last occurrence, \<open>None\<close> for Python's \<open>-1\<close>.\<close>

primrec rfind :: "char \<Rightarrow> string \<Rightarrow> nat option" where
  "rfind c [] = None"
| "rfind c (x # xs) =
     (case rfind c xs of
        Some i \<Rightarrow> Some (Suc i)
      | None \<Rightarrow> if x = c then Some 0 else None)"

text \<open>
  \<^verbatim>\<open>Path(folder_path) / filename\<close> for a directory entry \<open>filename\<close>: the parent and the
  final component. \<^verbatim>\<open>PurePath.suffix\<close> looks at the final component only:
  \<^verbatim>\<open>i = name.rfind('.'); name[i:] if 0 < i < len(name) - 1 else ''\<close>.
\<close>

datatype path = Path (parent: string) (name: string)

definition suffix :: "path \<Rightarrow> string" where
  "suffix p =
     (case rfind (CHR ''.'') (name p) of
        None \<Rightarrow> []
      | Some i \<Rightarrow> if 0 < i \<and> i + 1 < length (name p) then drop i (name p) else [])"

text \<open>\<^verbatim>\<open>os.path.join\<close> and \<^verbatim>\<open>os.path.basename\<close> (POSIX).\<close>

definition os_path_join :: "string \<Rightarrow> string \<Rightarrow> string" where
  "os_path_join a b =
     (if b \<noteq> [] \<and> hd b = CHR ''/'' then b
      else if a = [] \<or> last a = CHR ''/'' then a @ b
      else a @ ''/'' @ b)"

definition os_path_basename :: "string \<Rightarrow> string" where
  "os_path_basename p = (case rfind (CHR ''/'') p of None \<Rightarrow> p | Some i \<Rightarrow> drop (Suc i) p)"

text \<open>\<^verbatim>\<open>row[key]\<close>, \<^verbatim>\<open>value.lower()\<close> and \<^verbatim>\<open>float(value)\<close> on a cell of a row.\<close>

definition getitem :: "row \<Rightarrow> string \<Rightarrow> exn + pyval" where
  "getitem r k = (case r k of None \<Rightarrow> Inl KeyError | Some v \<Rightarrow> Inr v)"

definition str_lower :: "pyval \<Rightarrow> exn + string" where
  "str_lower v = (case v of PyNone \<Rightarrow> Inl AttributeError | PyStr s \<Rightarrow> Inr (lower s))"

definition py_float :: "(string \<Rightarrow> real option) \<Rightarrow> pyval \<Rightarrow> exn + real" where
  "py_float pf v =
     (case v of
        PyNone \<Rightarrow> Inl TypeError
      | PyStr s \<Rightarrow> (case pf s of None \<Rightarrow> Inl ValueError | Some x \<Rightarrow> Inr x))"

text \<open>\<^verbatim>\<open>min(a, b)\<close> keeps its first argument unless the second is strictly smaller.\<close>

definition py_min :: "real \<Rightarrow> real \<Rightarrow> real" where
  "py_min a b = (if b < a then b else a)"

text \<open>
  IEEE 754 binary64 subtraction. \<open>round_half_even\<close> rounds to the nearest integer, ties to
  the even one. The spacing of the doubles around a positive \<open>a\<close> is \<open>2 ^ (e - 52)\<close> for
  \<open>2 ^ e \<le> a < 2 ^ (e + 1)\<close>, with \<open>e\<close> no less than -1022 (below that the doubles are
  subnormal, with the spacing \<open>2 ^ (- 1074)\<close>): \<open>ulp_below\<close> and \<open>ulp_above\<close> find it
  by doubling, or halving, \<open>a\<close> into the interval from 1 to 2. Where the rounded value
  would overflow, Python has \<^verbatim>\<open>inf\<close> and the model a real of at least \<open>2 ^ 1024\<close>; the
  script only asks whether the absolute value is below 0.01, which is false of both.
\<close>

definition round_half_even :: "real \<Rightarrow> int" where
  "round_half_even x =
     (let n = \<lfloor>x\<rfloor>; r = x - of_int n
      in if r < 1 / 2 then n else if 1 / 2 < r then n + 1 else if even n then n else n + 1)"

fun ulp_below :: "nat \<Rightarrow> real \<Rightarrow> real \<Rightarrow> real" where
  "ulp_below n a q = (if n = 0 \<or> 1 \<le> a then q else ulp_below (n - 1) (2 * a) (q / 2))"

fun ulp_above :: "nat \<Rightarrow> real \<Rightarrow> real \<Rightarrow> real" where
  "ulp_above n a q = (if n = 0 \<or> a < 2 then q else ulp_above (n - 1) (a / 2) (2 * q))"

declare ulp_below.simps [simp del] ulp_above.simps [simp del]

definition double_round :: "real \<Rightarrow> real" where
  "double_round x =
     (if x = 0 then 0
      else let a = \<bar>x\<bar>;
               q = (if a < 1 then ulp_below 1022 a (1 / 2 ^ 52)
                    else ulp_above 1023 a (1 / 2 ^ 52))
           in of_int (round_half_even (x / q)) * q)"

definition float_sub :: "real \<Rightarrow> real \<Rightarrow> real" where
  "float_sub a b = double_round (a - b)"

text \<open>The double that the literal \<^verbatim>\<open>0.01\<close> denotes; it is a little above 1/100.\<close>

definition double_0_01 :: real where
  "double_0_01 = 5764607523034235 / 2 ^ 59"

text \<open>\<^verbatim>\<open>x or y\<close> on an optional integer: \<^verbatim>\<open>None\<close> and \<open>0\<close> are falsy.\<close>

definition py_or :: "int option \<Rightarrow> int \<Rightarrow> int" where
  "py_or x y = (case x of None \<Rightarrow> y | Some n \<Rightarrow> if n = 0 then y else n)"

section \<open>The report file and \<^verbatim>\<open>csv.DictReader\<close>\<close>

text \<open>
  What \<^verbatim>\<open>csv.reader(f, delimiter='\t')\<close> delivers for an opened report: the records of
  the file, each a list of fields, and then either the end of the file or an exception
  (\<open>raises\<close>; a file that cannot be opened or decoded at all has no records and raises).
\<close>

record csv_file =
  records :: "string list list"
  raises :: bool

text \<open>
  One \<^verbatim>\<open>DictReader.__next__\<close>: \<^verbatim>\<open>d = dict(zip(fieldnames, row))\<close>, and the field names
  beyond a short row are set to \<^verbatim>\<open>None\<close> (\<open>restval\<close>). The surplus of a long row is stored
  under the key \<^verbatim>\<open>None\<close>, which no string key reads. Blank records are skipped.
\<close>

definition dict_of_record :: "string list \<Rightarrow> string list \<Rightarrow> row" where
  "dict_of_record fieldnames r =
     (let d = foldl (\<lambda>d (k, v). d(k \<mapsto> PyStr v)) Map.empty (zip fieldnames r)
      in if length r < length fieldnames
         then foldl (\<lambda>d k. d(k \<mapsto> PyNone)) d (drop (length r) fieldnames)
         else d)"

definition DictReader :: "string list list \<Rightarrow> row list" where
  "DictReader rs =
     (case rs of
        [] \<Rightarrow> []
      | fieldnames # rest \<Rightarrow> map (dict_of_record fieldnames) (filter (\<lambda>r. r \<noteq> []) rest))"

section \<open>Constants\<close>

definition DEFAULT_CSV :: string where
  "DEFAULT_CSV = ''replaygain.csv''"

definition M4A_TAG_KEY :: string where
  "M4A_TAG_KEY = ''----:com.apple.iTunes:REPLAYGAIN_ALBUM_GAIN''"

definition MP3_TAG_KEY :: string where
  "MP3_TAG_KEY = ''REPLAYGAIN_ALBUM_GAIN''"

definition VALID_EXTENSIONS :: "string list" where
  "VALID_EXTENSIONS = [''.mp3'', ''.m4a'']"

section \<open>Logging\<close>

datatype log_record =
    Error_unable_to_read string exn
  | Error_write_failed path exn
  | Warning_missing_csv string
  | Warning_no_valid_gain string
  | Info_no_need_to_write string real real
  | Info_write string real real real

section \<open>\<^verbatim>\<open>get_loudest_track_gain\<close>\<close>

text \<open>The body of the inner \<^verbatim>\<open>try\<close>: both cells read and converted, loudness first.\<close>

definition parse_row :: "(string \<Rightarrow> real option) \<Rightarrow> row \<Rightarrow> exn + real \<times> real" where
  "parse_row pf r =
     (case getitem r ''Loudness (LUFS)'' of
        Inl e \<Rightarrow> Inl e
      | Inr lv \<Rightarrow>
          (case py_float pf lv of
             Inl e \<Rightarrow> Inl e
           | Inr loudness \<Rightarrow>
               (case getitem r ''Gain (dB)'' of
                  Inl e \<Rightarrow> Inl e
                | Inr gv \<Rightarrow>
                    (case py_float pf gv of
                       Inl e \<Rightarrow> Inl e
                     | Inr gain \<Rightarrow> Inr (loudness, gain)))))"

text \<open>
  The \<^verbatim>\<open>for row in reader\<close> loop with its two variables. \<open>Inl e\<close>: an exception other
  than the \<^verbatim>\<open>ValueError\<close> of the inner \<^verbatim>\<open>try\<close> left the loop.
\<close>

fun loudest_loop ::
  "(string \<Rightarrow> real option) \<Rightarrow> row list \<Rightarrow> bool \<Rightarrow> real \<Rightarrow> real option \<Rightarrow> exn + real option" where
  "loudest_loop pf [] rs max_loudness target_gain =
     (if rs then Inl OSError else Inr target_gain)"
| "loudest_loop pf (r # rows) rs max_loudness target_gain =
     (case getitem r ''Filename'' of
        Inl e \<Rightarrow> Inl e
      | Inr fv \<Rightarrow>
          (case str_lower fv of
             Inl e \<Rightarrow> Inl e
           | Inr fn \<Rightarrow>
               if fn = ''album'' then loudest_loop pf rows rs max_loudness target_gain
               else
                 (case parse_row pf r of
                    Inl e \<Rightarrow>
                      if e = ValueError then loudest_loop pf rows rs max_loudness target_gain
                      else Inl e
                  | Inr (loudness, gain) \<Rightarrow>
                      if loudness > max_loudness
                      then loudest_loop pf rows rs loudness (Some gain)
                      else loudest_loop pf rows rs max_loudness target_gain)))"

definition get_loudest_track_gain ::
  "(string \<Rightarrow> real option) \<Rightarrow> string \<Rightarrow> csv_file \<Rightarrow> log_record list
     \<Rightarrow> real option \<times> log_record list" where
  "get_loudest_track_gain pf csv_path f lg =
     (case loudest_loop pf (DictReader (records f)) (raises f) (- 999) None of
        Inr target_gain \<Rightarrow> (target_gain, lg)
      | Inl e \<Rightarrow> (None, lg @ [Error_unable_to_read csv_path e]))"

section \<open>\<^verbatim>\<open>get_album_max_gain\<close>\<close>

fun album_loop :: "(string \<Rightarrow> real option) \<Rightarrow> row list \<Rightarrow> bool \<Rightarrow> exn + real option" where
  "album_loop pf [] rs = (if rs then Inl OSError else Inr None)"
| "album_loop pf (r # rows) rs =
     (case getitem r ''Filename'' of
        Inl e \<Rightarrow> Inl e
      | Inr fv \<Rightarrow>
          (case str_lower fv of
             Inl e \<Rightarrow> Inl e
           | Inr fn \<Rightarrow>
               if fn = ''album'' then
                 (case getitem r ''Gain (dB)'' of
                    Inl e \<Rightarrow> Inl e
                  | Inr gv \<Rightarrow>
                      (case py_float pf gv of
                         Inl e \<Rightarrow> if e = ValueError then Inr None else Inl e
                       | Inr g \<Rightarrow> Inr (Some g)))
               else album_loop pf rows rs))"

definition get_album_max_gain ::
  "(string \<Rightarrow> real option) \<Rightarrow> string \<Rightarrow> csv_file \<Rightarrow> log_record list
     \<Rightarrow> real option \<times> log_record list" where
  "get_album_max_gain pf csv_path f lg =
     (case album_loop pf (DictReader (records f)) (raises f) of
        Inr g \<Rightarrow> (g, lg)
      | Inl e \<Rightarrow> (None, lg @ [Error_unable_to_read csv_path e]))"

section \<open>\<^verbatim>\<open>write_gain\<close>\<close>

text \<open>
  What the runtime and the tag library provide. An operation that opens a file reads the
  store and may raise; a save returns the new store and the exception it raised, if any.
\<close>

record ('d, 'm, 'i) platform =
  parse_float :: "string \<Rightarrow> real option"
  format_2f :: "real \<Rightarrow> string"
  MP4_open :: "path \<Rightarrow> 'd \<Rightarrow> exn + 'm"
  MP4_setitem :: "'m \<Rightarrow> string \<Rightarrow> string \<Rightarrow> 'm"
  MP4_save :: "'m \<Rightarrow> 'd \<Rightarrow> exn option \<times> 'd"
  ID3_open :: "path \<Rightarrow> 'd \<Rightarrow> exn + 'i"
  ID3_empty :: "'i"
  ID3_add_TXXX :: "'i \<Rightarrow> string \<Rightarrow> string \<Rightarrow> 'i"
  ID3_save :: "'i \<Rightarrow> path \<Rightarrow> 'd \<Rightarrow> exn option \<times> 'd"

record 'd world =
  disk :: 'd
  log :: "log_record list"

text \<open>The body of the \<^verbatim>\<open>try\<close> of \<^verbatim>\<open>write_gain\<close>, by extension.\<close>

definition write_tags ::
  "('d, 'm, 'i) platform \<Rightarrow> string \<Rightarrow> path \<Rightarrow> string \<Rightarrow> 'd \<Rightarrow> exn option \<times> 'd" where
  "write_tags P ext file_path gain_str d =
     (if ext = ''.m4a'' then
        (case MP4_open P file_path d of
           Inl e \<Rightarrow> (Some e, d)
         | Inr audio \<Rightarrow> MP4_save P (MP4_setitem P audio M4A_TAG_KEY gain_str) d)
      else if ext = ''.mp3'' then
        (case ID3_open P file_path d of
           Inl e \<Rightarrow>
             if e = ID3NoHeaderError
             then ID3_save P (ID3_add_TXXX P (ID3_empty P) MP3_TAG_KEY gain_str) file_path d
             else (Some e, d)
         | Inr audio \<Rightarrow> ID3_save P (ID3_add_TXXX P audio MP3_TAG_KEY gain_str) file_path d)
      else (None, d))"

definition write_gain ::
  "('d, 'm, 'i) platform \<Rightarrow> path \<Rightarrow> real \<Rightarrow> bool \<Rightarrow> 'd world \<Rightarrow> 'd world" where
  "write_gain P file_path gain_db dry_run w =
     (let ext = lower (suffix file_path);
          gain_str = format_2f P gain_db @ '' dB''
      in if dry_run then w
         else
           (case write_tags P ext file_path gain_str (disk w) of
              (None, d) \<Rightarrow> w\<lparr>disk := d\<rparr>
            | (Some e, d) \<Rightarrow> w\<lparr>disk := d, log := log w @ [Error_write_failed file_path e]\<rparr>))"

section \<open>\<^verbatim>\<open>process_album\<close>\<close>

text \<open>
  What \<^verbatim>\<open>process_album\<close> reads of an album directory: its path, the report
  (\<open>None\<close> when \<^verbatim>\<open>os.path.isfile\<close> is false) and the listing of \<^verbatim>\<open>os.listdir\<close>.
\<close>

record album_dir =
  folder_path :: string
  report :: "csv_file option"
  entries :: "string list"

text \<open>The \<^verbatim>\<open>for filename in os.listdir(folder_path)\<close> loop.\<close>

fun write_loop ::
  "('d, 'm, 'i) platform \<Rightarrow> string \<Rightarrow> real \<Rightarrow> bool \<Rightarrow> string list \<Rightarrow> 'd world \<Rightarrow> 'd world" where
  "write_loop P folder gain_to_write dry_run [] w = w"
| "write_loop P folder gain_to_write dry_run (filename # rest) w =
     (let file_path = Path folder filename
      in if lower (suffix file_path) \<notin> set VALID_EXTENSIONS
         then write_loop P folder gain_to_write dry_run rest w
         else write_loop P folder gain_to_write dry_run rest
                (write_gain P file_path gain_to_write dry_run w))"

text \<open>The local variables \<^verbatim>\<open>csv_path\<close> and \<^verbatim>\<open>album_name\<close> of \<^verbatim>\<open>process_album\<close>.\<close>

definition csv_path :: "album_dir \<Rightarrow> string" where
  "csv_path a = os_path_join (folder_path a) DEFAULT_CSV"

definition album_name :: "album_dir \<Rightarrow> string" where
  "album_name a = ''['' @ os_path_basename (folder_path a) @ '']''"

definition process_album ::
  "('d, 'm, 'i) platform \<Rightarrow> album_dir \<Rightarrow> bool \<Rightarrow> 'd world \<Rightarrow> 'd world" where
  "process_album P a dry_run w =
     (case report a of
        None \<Rightarrow> w\<lparr>log := log w @ [Warning_missing_csv (album_name a)]\<rparr>
      | Some f \<Rightarrow>
          (case get_loudest_track_gain (parse_float P) (csv_path a) f (log w) of
             (loudest_gain, lg1) \<Rightarrow>
               (case get_album_max_gain (parse_float P) (csv_path a) f lg1 of
                  (album_max_gain, lg2) \<Rightarrow>
                    (case loudest_gain of
                       None \<Rightarrow> w\<lparr>log := lg2 @ [Warning_no_valid_gain (album_name a)]\<rparr>
                     | Some l \<Rightarrow>
                         (case album_max_gain of
                            None \<Rightarrow> w\<lparr>log := lg2 @ [Warning_no_valid_gain (album_name a)]\<rparr>
                          | Some c \<Rightarrow>
                              (let gain_to_write = py_min l c
                               in if \<bar>float_sub gain_to_write c\<bar> < double_0_01
                                  then w\<lparr>log := lg2 @
                                         [Info_no_need_to_write (album_name a) l c]\<rparr>
                                  else write_loop P (folder_path a) gain_to_write dry_run
                                         (entries a)
                                         (w\<lparr>log := lg2 @
                                            [Info_write (album_name a) l c gain_to_write]\<rparr>)))))))"

section \<open>\<^verbatim>\<open>main\<close>: the worker count\<close>

text \<open>\<^verbatim>\<open>num_threads = os.cpu_count() or 2\<close>; \<^verbatim>\<open>os.cpu_count()\<close> may be \<^verbatim>\<open>None\<close>.\<close>

definition num_threads :: "int option \<Rightarrow> int" where
  "num_threads cpu_count = py_or cpu_count 2"

section \<open>The report as the specification describes it\<close>

text \<open>
  The album summary: a row whose \<^verbatim>\<open>Filename\<close> is, case-insensitively, \<^verbatim>\<open>album\<close>.
\<close>

definition is_album_row :: "row \<Rightarrow> bool" where
  "is_album_row r =
     (case r ''Filename'' of Some (PyStr s) \<Rightarrow> lower s = ''album'' | _ \<Rightarrow> False)"

text \<open>
  A LoudnessRecord of the specification, as the pair of its loudness and its gain: a row
  that is not the album summary and whose loudness and gain cells are both numbers.
\<close>

definition track_record :: "(string \<Rightarrow> real option) \<Rightarrow> row \<Rightarrow> (real \<times> real) option" where
  "track_record pf r =
     (case (r ''Filename'', r ''Loudness (LUFS)'', r ''Gain (dB)'') of
        (Some (PyStr s), Some (PyStr l), Some (PyStr g)) \<Rightarrow>
          (if lower s = ''album'' then None
           else (case (pf l, pf g) of (Some x, Some y) \<Rightarrow> Some (x, y) | _ \<Rightarrow> None))
      | _ \<Rightarrow> None)"

definition track_records :: "(string \<Rightarrow> real option) \<Rightarrow> row list \<Rightarrow> (real \<times> real) list" where
  "track_records pf rows = List.map_filter (track_record pf) rows"

text \<open>The first record, in the order of the report, whose loudness no record exceeds.\<close>

definition first_loudest :: "(real \<times> real) list \<Rightarrow> (real \<times> real) option" where
  "first_loudest ts = find (\<lambda>t. list_all (\<lambda>u. fst u \<le> fst t) ts) ts"

text \<open>A row with its three cells present as text: reading it raises nothing.\<close>

definition is_text :: "pyval option \<Rightarrow> bool" where
  "is_text v = (case v of Some (PyStr s) \<Rightarrow> True | _ \<Rightarrow> False)"

definition complete_row :: "row \<Rightarrow> bool" where
  "complete_row r \<longleftrightarrow>
     is_text (r ''Filename'') \<and> is_text (r ''Loudness (LUFS)'') \<and> is_text (r ''Gain (dB)'')"

section \<open>A small platform for concrete runs\<close>

text \<open>
  The store is the journal of the tags saved so far, as triples of file, key and value.
  Opening an MP4 file succeeds; an MP3 file has no ID3 header yet. \<^verbatim>\<open>float\<close> is a table
  of the cells that occur below, each with the double Python reads from it, and
  \<^verbatim>\<open>f"{x:.2f}"\<close> is \<open>format_fixed2\<close>: the exact value rounded to two decimals, ties to
  even.
\<close>

definition digit_char :: "nat \<Rightarrow> char" where
  "digit_char d = ''0123456789'' ! d"

fun decimal :: "nat \<Rightarrow> string" where
  "decimal n = (if n < 10 then [digit_char n] else decimal (n div 10) @ [digit_char (n mod 10)])"

declare decimal.simps [simp del]

definition format_fixed2 :: "real \<Rightarrow> string" where
  "format_fixed2 x =
     (let n = nat (round_half_even (\<bar>x\<bar> * 100))
      in (if x < 0 then ''-'' else []) @ decimal (n div 100) @ ''.'' @
         [digit_char (n div 10 mod 10), digit_char (n mod 10)])"

definition journal_platform ::
  "((path \<times> string \<times> string) list, path \<times> (string \<times> string) list, (string \<times> string) list) platform" where
  "journal_platform =
     \<lparr> parse_float = map_of
         [(''-10.0'', - 10), (''-8.0'', - 8), (''-2.0'', - 2), (''-3.0'', - 3),
          (''-2.5'', - 5 / 2), (''-1000'', - 1000),
          (''-0.0138'', - 1988789595446811 / 144115188075855872),
          (''-0.0038'', - 8762203435012037 / 2305843009213693952)],
       format_2f = format_fixed2,
       MP4_open = (\<lambda>p d. Inr (p, [])),
       MP4_setitem = (\<lambda>(p, ts) k v. (p, ts @ [(k, v)])),
       MP4_save = (\<lambda>(p, ts) d. (None, d @ map (\<lambda>(k, v). (p, k, v)) ts)),
       ID3_open = (\<lambda>p d. Inl ID3NoHeaderError),
       ID3_empty = [],
       ID3_add_TXXX = (\<lambda>ts k v. ts @ [(k, v)]),
       ID3_save = (\<lambda>ts p d. (None, d @ map (\<lambda>(k, v). (p, k, v)) ts)) \<rparr>"

text \<open>The report of the specification's scenario, and an album directory holding it.\<close>

definition scenario_report :: csv_file where
  "scenario_report =
     \<lparr> records =
         [[''Filename'', ''Loudness (LUFS)'', ''Gain (dB)''],
          [''TrackA'', ''-10.0'', ''-2.0''],
          [''TrackB'', ''-8.0'', ''-3.0''],
          [''album'', ''-'', ''-2.5'']],
       raises = False \<rparr>"

definition scenario_album :: album_dir where
  "scenario_album =
     \<lparr> folder_path = ''/music/Album'',
       report = Some scenario_report,
       entries = [''a.mp3'', ''b.M4A'', ''cover.jpg'', ''replaygain.csv''] \<rparr>"

definition empty_world :: "(path \<times> string \<times> string) list world" where
  "empty_world = \<lparr> disk = [], log = [] \<rparr>"



text \<open>A report with no usable track row, and one whose only track is quieter than -999.\<close>

definition no_track_report :: csv_file where
  "no_track_report =
     \<lparr> records =
         [[''Filename'', ''Loudness (LUFS)'', ''Gain (dB)''],
          [''TrackA'', ''abc'', ''-2.0''],
          [''album'', ''-'', ''-2.5'']],
       raises = False \<rparr>"

definition no_track_album :: album_dir where
  "no_track_album =
     \<lparr> folder_path = ''/music/Album'',
       report = Some no_track_report,
       entries = [''a.mp3'', ''replaygain.csv''] \<rparr>"

definition quiet_report :: csv_file where
  "quiet_report =
     \<lparr> records =
         [[''Filename'', ''Loudness (LUFS)'', ''Gain (dB)''],
          [''TrackA'', ''-1000'', ''-2.0''],
          [''album'', ''-'', ''-2.5'']],
       raises = False \<rparr>"



text \<open>The scenario's report with an added short row: the gain cell of TrackC is missing.\<close>

definition short_row_report :: csv_file where
  "short_row_report =
     \<lparr> records =
         [[''Filename'', ''Loudness (LUFS)'', ''Gain (dB)''],
          [''TrackA'', ''-10.0'', ''-2.0''],
          [''TrackC'', ''-8.0''],
          [''TrackB'', ''-8.0'', ''-3.0''],
          [''album'', ''-'', ''-2.5'']],
       raises = False \<rparr>"


text \<open>The scenario's report with a malformed loudness cell in an added row.\<close>

definition malformed_report :: csv_file where
  "malformed_report =
     \<lparr> records =
         [[''Filename'', ''Loudness (LUFS)'', ''Gain (dB)''],
          [''TrackA'', ''-10.0'', ''-2.0''],
          [''TrackC'', ''abc'', ''-2.0''],
          [''TrackB'', ''-8.0'', ''-3.0''],
          [''album'', ''-'', ''-2.5'']],
       raises = False \<rparr>"

text \<open>Reports whose header lacks a required column.\<close>

definition no_loudness_report :: csv_file where
  "no_loudness_report =
     \<lparr> records = [[''Filename'', ''Gain (dB)''], [''album'', ''-2.5'']],
       raises = False \<rparr>"

definition no_loudness_album :: album_dir where
  "no_loudness_album =
     \<lparr> folder_path = ''/music/Album'',
       report = Some no_loudness_report,
       entries = [''a.mp3'', ''replaygain.csv''] \<rparr>"

definition no_filename_report :: csv_file where
  "no_filename_report =
     \<lparr> records = [[''Loudness (LUFS)'', ''Gain (dB)''], [''-8.0'', ''-3.0'']],
       raises = False \<rparr>"

definition no_filename_album :: album_dir where
  "no_filename_album =
     \<lparr> folder_path = ''/music/Album'',
       report = Some no_filename_report,
       entries = [''a.mp3'', ''replaygain.csv''] \<rparr>"

section \<open>Evaluation on concrete inputs\<close>

lemmas report_eval =
  get_loudest_track_gain_def get_album_max_gain_def DictReader_def dict_of_record_def
  getitem_def str_lower_def lower_def lower_char_def parse_row_def py_float_def
  journal_platform_def

section \<open>Auxiliary facts\<close>

lemma py_min_min: "py_min a b = min a b"
  by (simp add: py_min_def min_def)


lemma float_sub_scenario: "float_sub (- 3) (- (5 / 2)) = - (1 / 2)"
proof -
  have "double_round (- (1 / 2)) = - (1 / 2)"
    apply (simp add: double_round_def Let_def ulp_below.simps)
    apply (simp add: round_half_even_def Let_def)
    done
  then show ?thesis by (simp add: float_sub_def)
qed


lemma tolerance_scenario: "\<not> \<bar>float_sub (- 3) (- (5 / 2))\<bar> < double_0_01"
  unfolding float_sub_scenario by (simp add: double_0_01_def)



lemma rfind_append:
  "rfind c (xs @ ys) =
     (case rfind c ys of Some i \<Rightarrow> Some (length xs + i) | None \<Rightarrow> rfind c xs)"
  by (induction xs) (auto split: option.splits)

lemma write_loop_append:
  "write_loop P folder g dry (xs @ ys) w =
     write_loop P folder g dry ys (write_loop P folder g dry xs w)"
  by (induction xs arbitrary: w) (simp_all add: Let_def)


lemma write_loop_dry_run: "write_loop P folder g True es w = w"
  by (induction es arbitrary: w) (simp_all add: Let_def write_gain_def)

lemma process_album_dry_run_disk: "disk (process_album P a True w) = disk w"
  by (simp add: process_album_def Let_def write_loop_dry_run
           split: option.splits prod.splits)

lemma process_album_both:
  assumes "report a = Some f"
    and "get_loudest_track_gain (parse_float P) (csv_path a) f (log w) = (Some l, lg1)"
    and "get_album_max_gain (parse_float P) (csv_path a) f lg1 = (Some c, lg2)"
  shows "process_album P a dry w =
     (if \<bar>float_sub (py_min l c) c\<bar> < double_0_01
      then w\<lparr>log := lg2 @ [Info_no_need_to_write (album_name a) l c]\<rparr>
      else write_loop P (folder_path a) (py_min l c) dry (entries a)
             (w\<lparr>log := lg2 @ [Info_write (album_name a) l c (py_min l c)]\<rparr>))"
  using assms by (simp add: process_album_def Let_def)

lemma process_album_insufficient:
  assumes "report a = Some f"
    and "get_loudest_track_gain (parse_float P) (csv_path a) f (log w) = (lo, lg1)"
    and "get_album_max_gain (parse_float P) (csv_path a) f lg1 = (co, lg2)"
    and "lo = None \<or> co = None"
  shows "process_album P a dry w = w\<lparr>log := lg2 @ [Warning_no_valid_gain (album_name a)]\<rparr>"
  using assms by (auto simp add: process_album_def Let_def split: option.splits)

lemma scenario_loudest:
  "get_loudest_track_gain (parse_float journal_platform) p scenario_report lg = (Some (- 3), lg)"
  by (simp add: report_eval scenario_report_def)

lemma scenario_ceiling:
  "get_album_max_gain (parse_float journal_platform) p scenario_report lg = (Some (- 5 / 2), lg)"
  by (simp add: report_eval scenario_report_def)


lemma suffix_upper_mp3:
  "stem \<noteq> [] \<Longrightarrow> lower (suffix (Path folder (stem @ ''.MP3''))) = ''.mp3''"
  by (simp add: suffix_def rfind_append lower_def lower_char_def)

lemma parse_row_Inr:
  "parse_row pf r = Inr (x, y) \<longleftrightarrow>
     (\<exists>l g. r ''Loudness (LUFS)'' = Some (PyStr l) \<and> pf l = Some x \<and>
            r ''Gain (dB)'' = Some (PyStr g) \<and> pf g = Some y)"
  by (auto simp: parse_row_def getitem_def py_float_def
           split: option.splits pyval.splits sum.splits)

lemma track_records_Cons:
  "track_records pf (r # rows) =
     (case track_record pf r of None \<Rightarrow> track_records pf rows
      | Some t \<Rightarrow> t # track_records pf rows)"
  by (simp add: track_records_def List.map_filter_simps split: option.splits)

lemma no_track_loudest_loop:
  "track_records pf rows = [] \<Longrightarrow> loudest_loop pf rows rs m tg = Inr res \<Longrightarrow> res = tg"
proof (induction rows arbitrary: m tg)
  case Nil
  then show ?case by (simp split: if_splits)
next
  case (Cons r rows)
  from Cons.prems(1) have none: "track_record pf r = None" and rest: "track_records pf rows = []"
    by (auto simp: track_records_Cons split: option.splits)
  show ?case
  proof (cases "parse_row pf r")
    case (Inl e)
    with Cons.prems(2) Cons.IH [OF rest] show ?thesis
      by (auto simp: getitem_def str_lower_def split: option.splits pyval.splits sum.splits if_splits)
  next
    case (Inr t)
    obtain x y where t: "t = (x, y)" by (cases t)
    from Inr t none have alb: "is_album_row r \<or> (\<forall>s. r ''Filename'' \<noteq> Some (PyStr s))"
      by (auto simp: parse_row_Inr track_record_def is_album_row_def split: option.splits pyval.splits if_splits)
    with Cons.prems(2) Cons.IH [OF rest] show ?thesis
      by (auto simp: getitem_def str_lower_def is_album_row_def split: option.splits pyval.splits sum.splits if_splits)
  qed
qed

lemma no_track_loudest_gain:
  "track_records pf (DictReader (records f)) = [] \<Longrightarrow>
     fst (get_loudest_track_gain pf p f lg) = None"
  by (auto simp: get_loudest_track_gain_def split: sum.splits dest: no_track_loudest_loop)

lemma no_album_row_loop:
  "\<forall>r \<in> set rows. \<not> is_album_row r \<Longrightarrow> album_loop pf rows rs = Inr res \<Longrightarrow> res = None"
  by (induction rows)
     (auto simp: getitem_def str_lower_def is_album_row_def
           split: option.splits pyval.splits sum.splits if_splits)

lemma no_album_row_gain:
  "\<forall>r \<in> set (DictReader (records f)). \<not> is_album_row r \<Longrightarrow>
     fst (get_album_max_gain pf p f lg) = None"
  by (auto simp: get_album_max_gain_def split: sum.splits dest: no_album_row_loop)

section \<open>The selected gain and the decision to write\<close>

text \<open>
  C1. When the report exists and both reads return a gain, \<^verbatim>\<open>process_album\<close> selects the
  minimum of the loudest-track gain \<open>l\<close> and the album ceiling gain \<open>c\<close>: it is the
  gain compared with the ceiling, the gain logged as written and the gain handed to
  \<^verbatim>\<open>write_gain\<close> for every file of the write loop.
\<close>

theorem gain_to_write_is_minimum:
  assumes "report a = Some f"
    and "get_loudest_track_gain (parse_float P) (csv_path a) f (log w) = (Some l, lg1)"
    and "get_album_max_gain (parse_float P) (csv_path a) f lg1 = (Some c, lg2)"
  shows "process_album P a dry_run w =
     (if \<bar>float_sub (min l c) c\<bar> < double_0_01
      then w\<lparr>log := lg2 @ [Info_no_need_to_write (album_name a) l c]\<rparr>
      else write_loop P (folder_path a) (min l c) dry_run (entries a)
             (w\<lparr>log := lg2 @ [Info_write (album_name a) l c (min l c)]\<rparr>))"
  using process_album_both [OF assms] by (simp add: py_min_min)

theorem gain_to_write_is_minimum_witness:
  "report scenario_album = Some scenario_report \<and>
   get_loudest_track_gain (parse_float journal_platform) (csv_path scenario_album)
     scenario_report (log empty_world) = (Some (- 3), []) \<and>
   get_album_max_gain (parse_float journal_platform) (csv_path scenario_album)
     scenario_report [] = (Some (- 5 / 2), []) \<and>
   process_album journal_platform scenario_album True empty_world =
     write_loop journal_platform ''/music/Album'' (- 3) True
       [''a.mp3'', ''b.M4A'', ''cover.jpg'', ''replaygain.csv'']
       (empty_world\<lparr>log := [Info_write ''[Album]'' (- 3) (- 5 / 2) (- 3)]\<rparr>)"
proof -
  have r: "report scenario_album = Some scenario_report"
    by (simp add: scenario_album_def)
  have l: "get_loudest_track_gain (parse_float journal_platform) (csv_path scenario_album)
     scenario_report (log empty_world) = (Some (- 3), [])"
    by (simp add: scenario_loudest empty_world_def)
  have c: "get_album_max_gain (parse_float journal_platform) (csv_path scenario_album)
     scenario_report [] = (Some (- 5 / 2), [])"
    by (simp add: scenario_ceiling)
  have n: "album_name scenario_album = ''[Album]''"
    by (simp add: album_name_def os_path_basename_def scenario_album_def)
  show ?thesis
    using r l c gain_to_write_is_minimum [OF r l c, of True]
    by (simp add: n tolerance_scenario) (simp add: scenario_album_def)
qed










section \<open>Insufficient data\<close>

text \<open>
  C6. If the loudest-track read or the album-ceiling read returns nothing (in particular
  when the report has no track record, or no summary row), \<^verbatim>\<open>process_album\<close> leaves the
  store of audio files unchanged and ends with the warning that no valid gain data was
  found, after whatever the two reads logged.
\<close>

theorem insufficient_data_no_write:
  assumes "report a = Some f"
    and "get_loudest_track_gain (parse_float P) (csv_path a) f (log w) = (lo, lg1)"
    and "get_album_max_gain (parse_float P) (csv_path a) f lg1 = (co, lg2)"
    and "lo = None \<or> co = None \<or>
         track_records (parse_float P) (DictReader (records f)) = [] \<or>
         (\<forall>r \<in> set (DictReader (records f)). \<not> is_album_row r)"
  shows "disk (process_album P a dry_run w) = disk w \<and>
         log (process_album P a dry_run w) = lg2 @ [Warning_no_valid_gain (album_name a)]"
proof -
  have "lo = None \<or> co = None"
    using assms(2-4) no_track_loudest_gain [of "parse_float P" f "csv_path a" "log w"]
      no_album_row_gain [of f "parse_float P" "csv_path a" lg1]
    by auto
  from process_album_insufficient [OF assms(1-3) this] show ?thesis by simp
qed


lemma no_track_loudest:
  "get_loudest_track_gain (parse_float journal_platform) p no_track_report lg = (None, lg)"
  by (simp add: report_eval no_track_report_def)

lemma no_track_ceiling:
  "get_album_max_gain (parse_float journal_platform) p no_track_report lg = (Some (- 5 / 2), lg)"
  by (simp add: report_eval no_track_report_def)

theorem insufficient_data_no_write_witness:
  "report no_track_album = Some no_track_report \<and>
   get_loudest_track_gain (parse_float journal_platform) (csv_path no_track_album)
     no_track_report (log empty_world) = (None, []) \<and>
   get_album_max_gain (parse_float journal_platform) (csv_path no_track_album)
     no_track_report [] = (Some (- 5 / 2), []) \<and>
   disk (process_album journal_platform no_track_album False empty_world) = [] \<and>
   log (process_album journal_platform no_track_album False empty_world) =
     [Warning_no_valid_gain ''[Album]'']"
proof -
  have r: "report no_track_album = Some no_track_report"
    by (simp add: no_track_album_def)
  have l: "get_loudest_track_gain (parse_float journal_platform) (csv_path no_track_album)
     no_track_report (log empty_world) = (None, [])"
    by (simp add: no_track_loudest empty_world_def)
  have c: "get_album_max_gain (parse_float journal_platform) (csv_path no_track_album)
     no_track_report [] = (Some (- 5 / 2), [])"
    by (simp add: no_track_ceiling)
  have n: "album_name no_track_album = ''[Album]''"
    by (simp add: album_name_def os_path_basename_def no_track_album_def)
  show ?thesis
    using r l c insufficient_data_no_write [OF r l c, of False]
    by (simp add: n empty_world_def)
qed

section \<open>The loudest track\<close>

lemma loudest_exists:
  "ts \<noteq> [] \<Longrightarrow> \<exists>t \<in> set ts. \<forall>v \<in> set ts. fst v \<le> (fst t :: real)"
proof (induction ts)
  case Nil
  then show ?case by simp
next
  case (Cons u ts)
  show ?case
  proof (cases "ts = []")
    case True
    then show ?thesis by simp
  next
    case False
    with Cons.IH obtain t where t: "t \<in> set ts" "\<forall>v \<in> set ts. fst v \<le> fst t"
      by blast
    show ?thesis
    proof (cases "fst t \<le> fst u")
      case True
      with t have "\<forall>v \<in> set (u # ts). fst v \<le> fst u" by auto
      then show ?thesis by auto
    next
      case False
      with t have "\<forall>v \<in> set (u # ts). fst v \<le> fst t" by auto
      with t(1) show ?thesis by auto
    qed
  qed
qed

lemma first_loudest_Some:
  "first_loudest ts = Some t \<Longrightarrow> t \<in> set ts \<and> (\<forall>v \<in> set ts. fst v \<le> fst t)"
  unfolding first_loudest_def
  by (auto simp: find_Some_iff list_all_iff)

lemma first_loudest_None: "first_loudest ts = None \<longleftrightarrow> ts = []"
proof
  assume "first_loudest ts = None"
  then have "\<forall>t \<in> set ts. \<not> (\<forall>v \<in> set ts. fst v \<le> fst t)"
    unfolding first_loudest_def find_None_iff list_all_iff by blast
  with loudest_exists [of ts] show "ts = []" by blast
next
  assume "ts = []"
  then show "first_loudest ts = None" by (simp add: first_loudest_def)
qed

lemma first_loudest_Cons:
  "first_loudest (u # ts) =
     (case first_loudest ts of
        None \<Rightarrow> Some u
      | Some t \<Rightarrow> if fst u < fst t then Some t else Some u)"
proof (cases "\<forall>v \<in> set ts. fst v \<le> fst u")
  case True
  then have "first_loudest (u # ts) = Some u"
    by (simp add: first_loudest_def list_all_iff)
  moreover have "\<not> fst u < fst t" if "first_loudest ts = Some t" for t
    using first_loudest_Some [OF that] True by (auto simp: not_less)
  ultimately show ?thesis
    by (auto split: option.splits)
next
  case False
  then obtain v where v: "v \<in> set ts" "fst u < fst v" by (auto simp: not_le)
  then have "ts \<noteq> []" by auto
  then obtain t where t: "first_loudest ts = Some t"
    using first_loudest_None [of ts] by (cases "first_loudest ts") auto
  from first_loudest_Some [OF t] v have ut: "fst u < fst t" by fastforce
  have "first_loudest (u # ts) =
          find (\<lambda>t. fst u \<le> fst t \<and> list_all (\<lambda>v. fst v \<le> fst t) ts) ts"
    using False by (auto simp: first_loudest_def list_all_iff)
  also have "\<dots> = find (\<lambda>t. list_all (\<lambda>v. fst v \<le> fst t) ts) ts"
  proof (rule find_cong [OF refl])
    fix x assume "x \<in> set ts"
    show "(fst u \<le> fst x \<and> list_all (\<lambda>v. fst v \<le> fst x) ts) = list_all (\<lambda>v. fst v \<le> fst x) ts"
      using v by (auto simp: list_all_iff)
  qed
  also have "\<dots> = Some t" using t by (simp add: first_loudest_def)
  finally show ?thesis using t ut by simp
qed

lemma loudest_loop_Inr:
  "loudest_loop pf rows rs m tg = Inr res \<Longrightarrow>
     res = (case first_loudest (track_records pf rows) of
              None \<Rightarrow> tg
            | Some t \<Rightarrow> if m < fst t then Some (snd t) else tg)"
proof (induction rows arbitrary: m tg)
  case Nil
  then show ?case by (simp add: track_records_def first_loudest_def split: if_splits)
next
  case (Cons r rows)
  show ?case
  proof (cases "track_record pf r")
    case None
    then have tr: "track_records pf (r # rows) = track_records pf rows"
      by (simp add: track_records_Cons)
    have "loudest_loop pf rows rs m tg = Inr res"
      using Cons.prems None
      by (auto simp: getitem_def str_lower_def track_record_def parse_row_Inr
               split: option.splits pyval.splits sum.splits if_splits)
    from Cons.IH [OF this] show ?thesis by (simp add: tr)
  next
    case (Some u)
    obtain x y where u: "u = (x, y)" by (cases u)
    from Some u have tr: "track_records pf (r # rows) = (x, y) # track_records pf rows"
      by (simp add: track_records_Cons)
    from Some u have pr: "parse_row pf r = Inr (x, y)"
      and fn: "\<exists>s. r ''Filename'' = Some (PyStr s) \<and> lower s \<noteq> ''album''"
      by (auto simp: track_record_def parse_row_Inr split: option.splits pyval.splits if_splits)
    show ?thesis
    proof (cases "m < x")
      case True
      have "loudest_loop pf rows rs x (Some y) = Inr res"
        using Cons.prems pr fn True by (auto simp: getitem_def str_lower_def)
      from Cons.IH [OF this] True show ?thesis
        by (auto simp: tr first_loudest_Cons split: option.splits)
    next
      case False
      have "loudest_loop pf rows rs m tg = Inr res"
        using Cons.prems pr fn False by (auto simp: getitem_def str_lower_def)
      from Cons.IH [OF this] False show ?thesis
        by (auto simp: tr first_loudest_Cons split: option.splits)
    qed
  qed
qed

lemma complete_rows_no_exception:
  "\<forall>r \<in> set rows. complete_row r \<Longrightarrow> \<exists>res. loudest_loop pf rows False m tg = Inr res"
proof (induction rows arbitrary: m tg)
  case Nil
  then show ?case by simp
next
  case (Cons r rows)
  then have c: "complete_row r" and IH: "\<And>m tg. \<exists>res. loudest_loop pf rows False m tg = Inr res"
    by auto
  from c obtain s l g where cells:
    "r ''Filename'' = Some (PyStr s)" "r ''Loudness (LUFS)'' = Some (PyStr l)"
    "r ''Gain (dB)'' = Some (PyStr g)"
    by (auto simp: complete_row_def is_text_def split: option.splits pyval.splits)
  show ?case
    using IH by (simp add: cells getitem_def str_lower_def parse_row_def py_float_def
                      split: option.splits)
qed


lemma complete_report_no_error:
  assumes "\<not> raises f" and "\<forall>r \<in> set (DictReader (records f)). complete_row r"
  shows "snd (get_loudest_track_gain pf p f lg) = lg"
  using assms complete_rows_no_exception [of "DictReader (records f)" pf "- 999" None]
  by (auto simp: get_loudest_track_gain_def)

text \<open>
  C2. A valid track row does not always give a loudest-track gain: the scan starts
  from \<^verbatim>\<open>max_loudness = -999\<close> and keeps a row only if its loudness is strictly greater,
  so a report whose only track has the loudness -1000 gives nothing.
\<close>

theorem quiet_track_not_selected:
  "track_records (parse_float journal_platform) (DictReader (records quiet_report)) =
     [(- 1000, - 2)] \<and>
   get_loudest_track_gain (parse_float journal_platform) ''/music/Album/replaygain.csv''
     quiet_report [] = (None, [])"
  by (simp add: report_eval quiet_report_def track_records_def track_record_def
        List.map_filter_simps)

text \<open>
  C2, as the code has it. When the read logs no error (no exception left the loop), the
  result is decided by the first track record of maximal loudness: its gain if its loudness
  is greater than -999, nothing otherwise. So with a track record louder than -999 the
  loudest-track gain is present and is the gain of the first-encountered record attaining
  the maximum loudness.
\<close>

theorem loudest_track_gain_first_maximum:
  assumes "snd (get_loudest_track_gain pf p f lg) = lg"
  shows "fst (get_loudest_track_gain pf p f lg) =
           (case first_loudest (track_records pf (DictReader (records f))) of
              None \<Rightarrow> None
            | Some t \<Rightarrow> if - 999 < fst t then Some (snd t) else None) \<and>
         ((\<exists>u \<in> set (track_records pf (DictReader (records f))). - 999 < fst u) \<longrightarrow>
            (\<exists>t. first_loudest (track_records pf (DictReader (records f))) = Some t \<and>
                 fst (get_loudest_track_gain pf p f lg) = Some (snd t)))"
proof -
  let ?ts = "track_records pf (DictReader (records f))"
  obtain res where res: "loudest_loop pf (DictReader (records f)) (raises f) (- 999) None = Inr res"
    using assms by (cases "loudest_loop pf (DictReader (records f)) (raises f) (- 999) None")
      (auto simp: get_loudest_track_gain_def)
  have eq: "fst (get_loudest_track_gain pf p f lg) =
      (case first_loudest ?ts of None \<Rightarrow> None
       | Some t \<Rightarrow> if - 999 < fst t then Some (snd t) else None)"
    using loudest_loop_Inr [OF res] by (simp add: get_loudest_track_gain_def res)
  have "\<exists>t. first_loudest ?ts = Some t \<and> fst (get_loudest_track_gain pf p f lg) = Some (snd t)"
    if "\<exists>u \<in> set ?ts. - 999 < fst u"
  proof -
    from that obtain u where u: "u \<in> set ?ts" "- 999 < fst u" by blast
    then have "?ts \<noteq> []" by auto
    then obtain t where t: "first_loudest ?ts = Some t"
      using first_loudest_None [of ?ts] by (cases "first_loudest ?ts") auto
    from first_loudest_Some [OF t] u have "- 999 < fst t" by fastforce
    with t eq show ?thesis by simp
  qed
  with eq show ?thesis by blast
qed

theorem loudest_track_gain_first_maximum_witness:
  "snd (get_loudest_track_gain (parse_float journal_platform) ''/music/Album/replaygain.csv''
          scenario_report []) = [] \<and>
   track_records (parse_float journal_platform) (DictReader (records scenario_report)) =
     [(- 10, - 2), (- 8, - 3)] \<and>
   first_loudest [(- 10, - 2), (- 8, - 3)] = Some (- 8, - 3) \<and>
   fst (get_loudest_track_gain (parse_float journal_platform) ''/music/Album/replaygain.csv''
          scenario_report []) = Some (- 3)"
proof -
  have n: "snd (get_loudest_track_gain (parse_float journal_platform)
      ''/music/Album/replaygain.csv'' scenario_report []) = []"
    by (simp add: scenario_loudest)
  have ts: "track_records (parse_float journal_platform) (DictReader (records scenario_report)) =
     [(- 10, - 2), (- 8, - 3)]"
    by (simp add: report_eval scenario_report_def track_records_def track_record_def
          List.map_filter_simps)
  have fl: "first_loudest [(- 10, - 2), (- 8, - 3)] = Some (- 8, - 3 :: real)"
    by (simp add: first_loudest_def)
  have "fst (get_loudest_track_gain (parse_float journal_platform) ''/music/Album/replaygain.csv''
          scenario_report []) = Some (- 3)"
    using loudest_track_gain_first_maximum [OF n] by (simp add: ts fl)
  with n ts fl show ?thesis by blast
qed

section \<open>Malformed cells\<close>

lemma foldl_restval:
  "foldl (\<lambda>d k. d(k \<mapsto> PyNone)) d ks k' = (if k' \<in> set ks then Some PyNone else d k')"
  by (induction ks arbitrary: d) auto

lemma dict_of_blank_record: "dict_of_record fieldnames [] k \<noteq> Some (PyStr s)"
  by (auto simp: dict_of_record_def foldl_restval Let_def)

lemma DictReader_remove_record:
  assumes "r \<noteq> []"
  shows "DictReader (fieldnames # before @ r # after) =
           DictReader (fieldnames # before) @ dict_of_record fieldnames r #
           map (dict_of_record fieldnames) (filter (\<lambda>r. r \<noteq> []) after)"
    and "DictReader (fieldnames # before @ after) =
           DictReader (fieldnames # before) @
           map (dict_of_record fieldnames) (filter (\<lambda>r. r \<noteq> []) after)"
  using assms by (simp_all add: DictReader_def)

lemma loudest_loop_skips_malformed:
  assumes "r ''Filename'' = Some (PyStr s)"
    and "r ''Loudness (LUFS)'' = Some (PyStr l)"
    and "pf l = None \<or> (\<exists>g. r ''Gain (dB)'' = Some (PyStr g) \<and> pf g = None)"
  shows "loudest_loop pf (before @ r # after) rs m tg = loudest_loop pf (before @ after) rs m tg"
proof (induction before arbitrary: m tg)
  case Nil
  from assms show ?case
    by (auto simp: getitem_def str_lower_def parse_row_def py_float_def split: option.splits)
next
  case (Cons p before)
  show ?case
    by (simp add: Cons.IH split: sum.splits prod.splits)
qed

lemma album_loop_skips_track:
  assumes "r ''Filename'' = Some (PyStr s)" and "lower s \<noteq> ''album''"
  shows "album_loop pf (before @ r # after) rs = album_loop pf (before @ after) rs"
proof (induction before)
  case Nil
  from assms show ?case by (simp add: getitem_def str_lower_def)
next
  case (Cons p before)
  then show ?case by (simp split: sum.splits)
qed

lemma complete_row_step:
  assumes "complete_row p"
  shows "loudest_loop pf (p # rows) rs m tg = loudest_loop pf rows rs m tg \<or>
         (\<exists>x y. loudest_loop pf (p # rows) rs m tg = loudest_loop pf rows rs x y)"
proof -
  from assms obtain s l g where cells:
    "p ''Filename'' = Some (PyStr s)" "p ''Loudness (LUFS)'' = Some (PyStr l)"
    "p ''Gain (dB)'' = Some (PyStr g)"
    by (auto simp: complete_row_def is_text_def split: option.splits pyval.splits)
  show ?thesis
    by (auto simp: cells getitem_def str_lower_def parse_row_def py_float_def
             split: option.splits)
qed

lemma loudest_loop_aborts_on_missing_cell:
  assumes "\<forall>p \<in> set before. complete_row p"
    and "r ''Filename'' = Some (PyStr s)" and "lower s \<noteq> ''album''"
    and "r ''Loudness (LUFS)'' = Some PyNone \<or>
         (\<exists>l x. r ''Loudness (LUFS)'' = Some (PyStr l) \<and> pf l = Some x \<and>
                r ''Gain (dB)'' = Some PyNone)"
  shows "loudest_loop pf (before @ r # after) rs m tg = Inl TypeError"
  using assms(1)
proof (induction before arbitrary: m tg)
  case Nil
  from assms(2-4) show ?case
    by (auto simp: getitem_def str_lower_def parse_row_def py_float_def)
next
  case (Cons p before)
  then have c: "complete_row p" and IH: "\<And>m tg. loudest_loop pf (before @ r # after) rs m tg = Inl TypeError"
    by auto
  from complete_row_step [OF c, of pf "before @ r # after" rs m tg] IH show ?case
    by auto
qed

text \<open>
  C5. A row whose gain cell is not a valid number is not always skipped: in a short row
  the missing cell is \<^verbatim>\<open>None\<close>, \<^verbatim>\<open>float(None)\<close> raises \<^verbatim>\<open>TypeError\<close>, which the inner
  \<^verbatim>\<open>except ValueError\<close> does not catch, and the whole read ends with an error logged and
  no gain, where the report without that row gives the gain of TrackB.
\<close>

theorem short_row_aborts_read:
  "dict_of_record [''Filename'', ''Loudness (LUFS)'', ''Gain (dB)''] [''TrackC'', ''-8.0'']
     ''Gain (dB)'' = Some PyNone \<and>
   get_loudest_track_gain (parse_float journal_platform) ''/music/Album/replaygain.csv''
     short_row_report [] =
     (None, [Error_unable_to_read ''/music/Album/replaygain.csv'' TypeError]) \<and>
   short_row_report\<lparr>records :=
      [''Filename'', ''Loudness (LUFS)'', ''Gain (dB)''] #
      [[''TrackA'', ''-10.0'', ''-2.0'']] @
      [[''TrackB'', ''-8.0'', ''-3.0''], [''album'', ''-'', ''-2.5'']]\<rparr> = scenario_report \<and>
   get_loudest_track_gain (parse_float journal_platform) ''/music/Album/replaygain.csv''
     scenario_report [] = (Some (- 3), [])"
  by (simp add: report_eval short_row_report_def scenario_report_def)

text \<open>
  C5, as the code has it. A row whose \<^verbatim>\<open>Filename\<close> and loudness cells are text is passed
  over by \<^verbatim>\<open>get_loudest_track_gain\<close> without a log record when its loudness is not a
  number, or when its gain cell is text that is not a number: the result and the log are
  those of the report with that record removed, and for a track row the same holds of the
  whole of \<^verbatim>\<open>process_album\<close>. A track row with a missing loudness cell, or with a numeric
  loudness and a missing gain cell, is not passed over: after complete rows the read ends
  there with a \<^verbatim>\<open>TypeError\<close> logged and no gain.
\<close>

theorem malformed_row_is_skipped:
  assumes "records f = fieldnames # before @ r # after"
    and "dict_of_record fieldnames r ''Filename'' = Some (PyStr s)"
  shows "(dict_of_record fieldnames r ''Loudness (LUFS)'' = Some (PyStr l) \<and>
          (parse_float P l = None \<or>
           (\<exists>g. dict_of_record fieldnames r ''Gain (dB)'' = Some (PyStr g) \<and>
                parse_float P g = None)) \<longrightarrow>
            get_loudest_track_gain (parse_float P) p f lg =
              get_loudest_track_gain (parse_float P) p
                (f\<lparr>records := fieldnames # before @ after\<rparr>) lg \<and>
            (lower s \<noteq> ''album'' \<longrightarrow>
               process_album P (a\<lparr>report := Some f\<rparr>) dry_run w =
               process_album P
                 (a\<lparr>report := Some (f\<lparr>records := fieldnames # before @ after\<rparr>)\<rparr>)
                 dry_run w)) \<and>
         (lower s \<noteq> ''album'' \<and>
          (\<forall>b \<in> set (DictReader (fieldnames # before)). complete_row b) \<and>
          (dict_of_record fieldnames r ''Loudness (LUFS)'' = Some PyNone \<or>
           (\<exists>l x. dict_of_record fieldnames r ''Loudness (LUFS)'' = Some (PyStr l) \<and>
                  parse_float P l = Some x \<and>
                  dict_of_record fieldnames r ''Gain (dB)'' = Some PyNone)) \<longrightarrow>
            get_loudest_track_gain (parse_float P) p f lg =
              (None, lg @ [Error_unable_to_read p TypeError]))"
proof -
  let ?f' = "f\<lparr>records := fieldnames # before @ after\<rparr>"
  let ?r = "dict_of_record fieldnames r"
  have ne: "r \<noteq> []"
    using assms(2) dict_of_blank_record by blast
  have rows: "DictReader (records f) =
      DictReader (fieldnames # before) @ ?r #
      map (dict_of_record fieldnames) (filter (\<lambda>r. r \<noteq> []) after)"
    using ne by (simp add: assms(1) DictReader_def)
  have rows': "DictReader (records ?f') =
      DictReader (fieldnames # before) @
      map (dict_of_record fieldnames) (filter (\<lambda>r. r \<noteq> []) after)"
    by (simp add: DictReader_def)
  have skip: "get_loudest_track_gain (parse_float P) p f lg =
              get_loudest_track_gain (parse_float P) p ?f' lg \<and>
            (lower s \<noteq> ''album'' \<longrightarrow>
               process_album P (a\<lparr>report := Some f\<rparr>) dry_run w =
               process_album P (a\<lparr>report := Some ?f'\<rparr>) dry_run w)"
    if l: "?r ''Loudness (LUFS)'' = Some (PyStr l)"
      and bad: "parse_float P l = None \<or>
           (\<exists>g. ?r ''Gain (dB)'' = Some (PyStr g) \<and> parse_float P g = None)"
  proof -
    have loud: "get_loudest_track_gain (parse_float P) q f lg' =
        get_loudest_track_gain (parse_float P) q ?f' lg'" for q lg'
      unfolding get_loudest_track_gain_def rows rows'
      by (simp add: loudest_loop_skips_malformed [where r = ?r, OF assms(2) l bad])
    have alb: "get_album_max_gain (parse_float P) q f lg' =
        get_album_max_gain (parse_float P) q ?f' lg'" if "lower s \<noteq> ''album''" for q lg'
      unfolding get_album_max_gain_def rows rows'
      by (simp add: album_loop_skips_track [where r = ?r, OF assms(2) that])
    have "process_album P (a\<lparr>report := Some f\<rparr>) dry_run w =
          process_album P (a\<lparr>report := Some ?f'\<rparr>) dry_run w" if "lower s \<noteq> ''album''"
      by (simp add: process_album_def csv_path_def album_name_def Let_def loud alb [OF that]
            split: prod.splits option.splits)
    with loud show ?thesis by blast
  qed
  have abort: "get_loudest_track_gain (parse_float P) p f lg =
              (None, lg @ [Error_unable_to_read p TypeError])"
    if track: "lower s \<noteq> ''album''"
      and pre: "\<forall>b \<in> set (DictReader (fieldnames # before)). complete_row b"
      and missing: "?r ''Loudness (LUFS)'' = Some PyNone \<or>
           (\<exists>l x. ?r ''Loudness (LUFS)'' = Some (PyStr l) \<and> parse_float P l = Some x \<and>
                  ?r ''Gain (dB)'' = Some PyNone)"
    unfolding get_loudest_track_gain_def rows
    by (simp add: loudest_loop_aborts_on_missing_cell [where r = ?r, OF pre assms(2) track missing])
  from skip abort show ?thesis by blast
qed

lemma scenario_from_malformed:
  "malformed_report\<lparr>records :=
      [''Filename'', ''Loudness (LUFS)'', ''Gain (dB)''] #
      [[''TrackA'', ''-10.0'', ''-2.0'']] @
      [[''TrackB'', ''-8.0'', ''-3.0''], [''album'', ''-'', ''-2.5'']]\<rparr> = scenario_report"
  by (simp add: malformed_report_def scenario_report_def)

theorem malformed_row_is_skipped_witness:
  "records malformed_report =
     [''Filename'', ''Loudness (LUFS)'', ''Gain (dB)''] #
     [[''TrackA'', ''-10.0'', ''-2.0'']] @ [''TrackC'', ''abc'', ''-2.0''] #
     [[''TrackB'', ''-8.0'', ''-3.0''], [''album'', ''-'', ''-2.5'']] \<and>
   parse_float journal_platform ''abc'' = None \<and>
   lower ''TrackC'' \<noteq> ''album'' \<and>
   get_loudest_track_gain (parse_float journal_platform) ''/music/Album/replaygain.csv''
     malformed_report [] = (Some (- 3), []) \<and>
   process_album journal_platform (scenario_album\<lparr>report := Some malformed_report\<rparr>) False
     empty_world =
   process_album journal_platform (scenario_album\<lparr>report := Some scenario_report\<rparr>) False
     empty_world \<and>
   records short_row_report =
     [''Filename'', ''Loudness (LUFS)'', ''Gain (dB)''] #
     [[''TrackA'', ''-10.0'', ''-2.0'']] @ [''TrackC'', ''-8.0''] #
     [[''TrackB'', ''-8.0'', ''-3.0''], [''album'', ''-'', ''-2.5'']] \<and>
   get_loudest_track_gain (parse_float journal_platform) ''/music/Album/replaygain.csv''
     short_row_report [] =
     (None, [Error_unable_to_read ''/music/Album/replaygain.csv'' TypeError])"
proof -
  let ?h = "[''Filename'', ''Loudness (LUFS)'', ''Gain (dB)'']"
  have r: "records malformed_report =
     ?h # [[''TrackA'', ''-10.0'', ''-2.0'']] @ [''TrackC'', ''abc'', ''-2.0''] #
     [[''TrackB'', ''-8.0'', ''-3.0''], [''album'', ''-'', ''-2.5'']]"
    by (simp add: malformed_report_def)
  have c1: "dict_of_record ?h [''TrackC'', ''abc'', ''-2.0''] ''Filename'' = Some (PyStr ''TrackC'')"
    by (simp add: dict_of_record_def)
  have c2: "dict_of_record ?h [''TrackC'', ''abc'', ''-2.0''] ''Loudness (LUFS)'' = Some (PyStr ''abc'')"
    by (simp add: dict_of_record_def)
  have bad: "parse_float journal_platform ''abc'' = None"
    by (simp add: journal_platform_def)
  have nal: "lower ''TrackC'' \<noteq> ''album''"
    by (simp add: lower_def lower_char_def)
  note main = malformed_row_is_skipped [OF r c1, of "''abc''" journal_platform
      "''/music/Album/replaygain.csv''" "[]" scenario_album False empty_world,
      unfolded scenario_from_malformed]
  have skipped: "get_loudest_track_gain (parse_float journal_platform)
       ''/music/Album/replaygain.csv'' malformed_report [] = (Some (- 3), []) \<and>
     process_album journal_platform (scenario_album\<lparr>report := Some malformed_report\<rparr>) False
       empty_world =
     process_album journal_platform (scenario_album\<lparr>report := Some scenario_report\<rparr>) False
       empty_world"
    using main c2 bad nal by (simp add: scenario_loudest)
  have r': "records short_row_report =
     ?h # [[''TrackA'', ''-10.0'', ''-2.0'']] @ [''TrackC'', ''-8.0''] #
     [[''TrackB'', ''-8.0'', ''-3.0''], [''album'', ''-'', ''-2.5'']]"
    by (simp add: short_row_report_def)
  have d1: "dict_of_record ?h [''TrackC'', ''-8.0''] ''Filename'' = Some (PyStr ''TrackC'')"
    by (simp add: dict_of_record_def)
  have d2: "dict_of_record ?h [''TrackC'', ''-8.0''] ''Loudness (LUFS)'' = Some (PyStr ''-8.0'')"
    by (simp add: dict_of_record_def)
  have d3: "dict_of_record ?h [''TrackC'', ''-8.0''] ''Gain (dB)'' = Some PyNone"
    by (simp add: dict_of_record_def)
  have ok: "parse_float journal_platform ''-8.0'' = Some (- 8)"
    by (simp add: journal_platform_def)
  have pre: "\<forall>b \<in> set (DictReader (?h # [[''TrackA'', ''-10.0'', ''-2.0'']])). complete_row b"
    by (simp add: DictReader_def dict_of_record_def complete_row_def is_text_def)
  have aborted: "get_loudest_track_gain (parse_float journal_platform)
       ''/music/Album/replaygain.csv'' short_row_report [] =
     (None, [Error_unable_to_read ''/music/Album/replaygain.csv'' TypeError])"
    using malformed_row_is_skipped [OF r' d1, of l journal_platform
        "''/music/Album/replaygain.csv''" "[]" a dry_run w] nal pre d2 d3 ok
    by simp
  from r bad nal skipped r' aborted show ?thesis by blast
qed

section \<open>The album summary row\<close>




section \<open>A missing column\<close>

lemma foldl_zip_absent:
  "k \<notin> set ks \<Longrightarrow> foldl (\<lambda>d (k, v). d(k \<mapsto> PyStr v)) d (zip ks vs) k = d k"
proof (induction ks arbitrary: d vs)
  case Nil
  then show ?case by simp
next
  case (Cons x ks)
  then show ?case by (cases vs) auto
qed

lemma dict_of_record_absent:
  "k \<notin> set fieldnames \<Longrightarrow> dict_of_record fieldnames r k = None"
  by (auto simp: dict_of_record_def Let_def foldl_restval foldl_zip_absent dest: in_set_dropD)

lemma album_row_not_blank: "is_album_row (dict_of_record fieldnames r) \<Longrightarrow> r \<noteq> []"
  using dict_of_blank_record [of fieldnames "''Filename''"]
  by (auto simp: is_album_row_def split: option.splits pyval.splits)

lemma track_record_needs_cells:
  "r ''Filename'' = None \<or> r ''Loudness (LUFS)'' = None \<or> r ''Gain (dB)'' = None \<Longrightarrow>
     track_record pf r = None"
  by (auto simp: track_record_def split: option.splits pyval.splits)

lemma track_records_missing_column:
  assumes "\<forall>r \<in> set rows.
             r ''Filename'' = None \<or> r ''Loudness (LUFS)'' = None \<or> r ''Gain (dB)'' = None"
  shows "track_records pf rows = []"
  using assms
  by (induction rows) (simp_all add: track_records_def List.map_filter_simps track_record_needs_cells)

lemma loudest_loop_no_loudness:
  assumes "\<forall>r \<in> set rows. r ''Loudness (LUFS)'' = None"
    and "\<exists>r \<in> set rows. \<not> is_album_row r"
  shows "\<exists>e. loudest_loop pf rows rs m tg = Inl e"
  using assms
proof (induction rows)
  case Nil
  then show ?case by simp
next
  case (Cons r rows)
  show ?case
  proof (cases "is_album_row r")
    case True
    with Cons.prems have "\<exists>r \<in> set rows. \<not> is_album_row r" by auto
    with Cons have "\<exists>e. loudest_loop pf rows rs m tg = Inl e" by auto
    with True show ?thesis
      by (auto simp: is_album_row_def getitem_def str_lower_def split: option.splits pyval.splits)
  next
    case False
    from Cons.prems have "r ''Loudness (LUFS)'' = None" by simp
    with False show ?thesis
      by (auto simp: is_album_row_def getitem_def str_lower_def parse_row_def
               split: option.splits pyval.splits)
  qed
qed

lemma album_loop_no_gain:
  assumes "\<forall>r \<in> set rows. r ''Gain (dB)'' = None"
    and "\<exists>r \<in> set rows. is_album_row r"
  shows "\<exists>e. album_loop pf rows rs = Inl e"
  using assms
proof (induction rows)
  case Nil
  then show ?case by simp
next
  case (Cons r rows)
  show ?case
  proof (cases "is_album_row r")
    case True
    from Cons.prems have "r ''Gain (dB)'' = None" by simp
    with True show ?thesis
      by (auto simp: is_album_row_def getitem_def str_lower_def split: option.splits pyval.splits)
  next
    case False
    with Cons.prems have "\<exists>r \<in> set rows. is_album_row r" by auto
    with Cons have "\<exists>e. album_loop pf rows rs = Inl e" by auto
    with False show ?thesis
      by (auto simp: is_album_row_def getitem_def str_lower_def split: option.splits pyval.splits)
  qed
qed

lemma get_loudest_log:
  "snd (get_loudest_track_gain pf p f lg) =
     (case loudest_loop pf (DictReader (records f)) (raises f) (- 999) None of
        Inl e \<Rightarrow> lg @ [Error_unable_to_read p e] | Inr res \<Rightarrow> lg)"
  by (simp add: get_loudest_track_gain_def split: sum.splits)

lemma get_album_log:
  "snd (get_album_max_gain pf p f lg) =
     (case album_loop pf (DictReader (records f)) (raises f) of
        Inl e \<Rightarrow> lg @ [Error_unable_to_read p e] | Inr res \<Rightarrow> lg)"
  by (simp add: get_album_max_gain_def split: sum.splits)


text \<open>
  C10. A report without a required column does not always log an error: with no
  \<^verbatim>\<open>Loudness (LUFS)\<close> column and only the summary row, no row reaches the missing cell,
  the track read returns nothing without raising, and the album is skipped with the
  warning alone.
\<close>

theorem missing_loudness_column_no_error:
  "''Loudness (LUFS)'' \<notin> set (hd (records no_loudness_report)) \<and>
   report no_loudness_album = Some no_loudness_report \<and>
   process_album journal_platform no_loudness_album False empty_world =
     \<lparr>disk = [], log = [Warning_no_valid_gain ''[Album]'']\<rparr>"
  by (simp add: no_loudness_album_def no_loudness_report_def empty_world_def
        process_album_def report_eval album_name_def os_path_basename_def)

text \<open>
  C10, as the code has it. If the header lacks one of the three required columns, the
  loudest-track read returns nothing and \<^verbatim>\<open>process_album\<close> leaves the store of audio files
  unchanged and ends with the warning. A read error is logged as well when a row reaches
  the missing column: when \<^verbatim>\<open>Filename\<close> is missing and there is a non-blank data record,
  when \<^verbatim>\<open>Loudness (LUFS)\<close> is missing and some non-blank data record is not a summary row,
  or when \<^verbatim>\<open>Gain (dB)\<close> is missing and there is a summary row.
\<close>

theorem missing_column_skips_album:
  assumes "report a = Some f" and "records f = fieldnames # rest"
    and "''Filename'' \<notin> set fieldnames \<or> ''Loudness (LUFS)'' \<notin> set fieldnames \<or>
         ''Gain (dB)'' \<notin> set fieldnames"
  shows "fst (get_loudest_track_gain (parse_float P) (csv_path a) f (log w)) = None \<and>
         disk (process_album P a dry_run w) = disk w \<and>
         last (log (process_album P a dry_run w)) = Warning_no_valid_gain (album_name a) \<and>
         ((''Filename'' \<notin> set fieldnames \<and> (\<exists>r \<in> set rest. r \<noteq> []) \<or>
           ''Loudness (LUFS)'' \<notin> set fieldnames \<and>
             (\<exists>r \<in> set rest. r \<noteq> [] \<and> \<not> is_album_row (dict_of_record fieldnames r)) \<or>
           ''Gain (dB)'' \<notin> set fieldnames \<and>
             (\<exists>r \<in> set rest. is_album_row (dict_of_record fieldnames r))) \<longrightarrow>
          (\<exists>e. Error_unable_to_read (csv_path a) e \<in>
                 set (drop (length (log w)) (log (process_album P a dry_run w)))))"
proof -
  let ?pf = "parse_float P"
  let ?rows = "DictReader (records f)"
  let ?lg1 = "snd (get_loudest_track_gain ?pf (csv_path a) f (log w))"
  let ?lg2 = "snd (get_album_max_gain ?pf (csv_path a) f ?lg1)"
  have rows: "?rows = map (dict_of_record fieldnames) (filter (\<lambda>r. r \<noteq> []) rest)"
    by (simp add: DictReader_def assms(2))
  have "\<forall>r \<in> set ?rows.
          r ''Filename'' = None \<or> r ''Loudness (LUFS)'' = None \<or> r ''Gain (dB)'' = None"
    using assms(3) by (auto simp: rows dict_of_record_absent)
  then have "track_records ?pf ?rows = []"
    by (rule track_records_missing_column)
  then have none: "fst (get_loudest_track_gain ?pf (csv_path a) f (log w)) = None"
    by (rule no_track_loudest_gain)
  have pa: "process_album P a dry_run w =
      w\<lparr>log := ?lg2 @ [Warning_no_valid_gain (album_name a)]\<rparr>"
    by (rule process_album_insufficient [OF assms(1) surjective_pairing surjective_pairing])
       (simp add: none)
  have err: "\<exists>e. Error_unable_to_read (csv_path a) e \<in>
                 set (drop (length (log w)) (log (process_album P a dry_run w)))"
    if c: "''Filename'' \<notin> set fieldnames \<and> (\<exists>r \<in> set rest. r \<noteq> []) \<or>
           ''Loudness (LUFS)'' \<notin> set fieldnames \<and>
             (\<exists>r \<in> set rest. r \<noteq> [] \<and> \<not> is_album_row (dict_of_record fieldnames r)) \<or>
           ''Gain (dB)'' \<notin> set fieldnames \<and>
             (\<exists>r \<in> set rest. is_album_row (dict_of_record fieldnames r))"
  proof -
    have "(\<exists>e. loudest_loop ?pf ?rows (raises f) (- 999) None = Inl e) \<or>
          (\<exists>e. album_loop ?pf ?rows (raises f) = Inl e)"
      using c
    proof (elim disjE conjE bexE)
      fix r assume k: "''Filename'' \<notin> set fieldnames" and r: "r \<in> set rest" "r \<noteq> []"
      then obtain x xs where "?rows = x # xs" and "x ''Filename'' = None"
        by (cases ?rows) (auto simp: rows filter_empty_conv dict_of_record_absent)
      then show ?thesis by (simp add: getitem_def)
    next
      fix r assume k: "''Loudness (LUFS)'' \<notin> set fieldnames"
        and r: "r \<in> set rest" "r \<noteq> []" "\<not> is_album_row (dict_of_record fieldnames r)"
      have "\<forall>x \<in> set ?rows. x ''Loudness (LUFS)'' = None"
        using k by (auto simp: rows dict_of_record_absent)
      moreover have "\<exists>x \<in> set ?rows. \<not> is_album_row x"
        using r by (auto simp: rows)
      ultimately show ?thesis
        using loudest_loop_no_loudness by blast
    next
      fix r assume k: "''Gain (dB)'' \<notin> set fieldnames"
        and r: "r \<in> set rest" "is_album_row (dict_of_record fieldnames r)"
      have "\<forall>x \<in> set ?rows. x ''Gain (dB)'' = None"
        using k by (auto simp: rows dict_of_record_absent)
      moreover have "\<exists>x \<in> set ?rows. is_album_row x"
        using r album_row_not_blank [OF r(2)] by (auto simp: rows)
      ultimately show ?thesis
        using album_loop_no_gain by blast
    qed
    then show ?thesis
      by (auto simp: pa get_loudest_log get_album_log split: sum.splits)
  qed
  from none pa err show ?thesis by simp
qed

theorem missing_column_skips_album_witness:
  "report no_filename_album = Some no_filename_report \<and>
   records no_filename_report = [''Loudness (LUFS)'', ''Gain (dB)''] # [[''-8.0'', ''-3.0'']] \<and>
   ''Filename'' \<notin> set [''Loudness (LUFS)'', ''Gain (dB)''] \<and>
   (\<exists>r \<in> set [[''-8.0'', ''-3.0'']]. r \<noteq> []) \<and>
   fst (get_loudest_track_gain (parse_float journal_platform) (csv_path no_filename_album)
          no_filename_report (log empty_world)) = None \<and>
   disk (process_album journal_platform no_filename_album False empty_world) = [] \<and>
   last (log (process_album journal_platform no_filename_album False empty_world)) =
     Warning_no_valid_gain ''[Album]'' \<and>
   (\<exists>e. Error_unable_to_read ''/music/Album/replaygain.csv'' e \<in>
          set (log (process_album journal_platform no_filename_album False empty_world)))"
proof -
  have r: "report no_filename_album = Some no_filename_report"
    by (simp add: no_filename_album_def)
  have f: "records no_filename_report = [''Loudness (LUFS)'', ''Gain (dB)''] # [[''-8.0'', ''-3.0'']]"
    by (simp add: no_filename_report_def)
  have k: "''Filename'' \<notin> set [''Loudness (LUFS)'', ''Gain (dB)''] \<or>
           ''Loudness (LUFS)'' \<notin> set [''Loudness (LUFS)'', ''Gain (dB)''] \<or>
           ''Gain (dB)'' \<notin> set [''Loudness (LUFS)'', ''Gain (dB)'']"
    by simp
  have n: "album_name no_filename_album = ''[Album]''"
    by (simp add: album_name_def os_path_basename_def no_filename_album_def)
  have p: "csv_path no_filename_album = ''/music/Album/replaygain.csv''"
    by (simp add: csv_path_def os_path_join_def DEFAULT_CSV_def no_filename_album_def)
  show ?thesis
    using r f missing_column_skips_album [OF r f k, of journal_platform empty_world False]
    by (simp add: n p empty_world_def)
qed

section \<open>The files written\<close>

text \<open>
  C8. In the write loop, at every position of the listing: \<^verbatim>\<open>write_gain\<close> is run on the
  file, after the files before it and before the files after it, if the lowercased suffix
  is \<^verbatim>\<open>.mp3\<close> or \<^verbatim>\<open>.m4a\<close>, and the file is passed over otherwise. A name ending in
  \<^verbatim>\<open>.MP3\<close> after a non-empty stem has the lowercased suffix \<^verbatim>\<open>.mp3\<close>.
\<close>

theorem writer_invoked_iff_audio_extension:
  "write_loop P folder g dry_run (before @ filename # after) w =
     write_loop P folder g dry_run after
       (if lower (suffix (Path folder filename)) = ''.mp3'' \<or>
           lower (suffix (Path folder filename)) = ''.m4a''
        then write_gain P (Path folder filename) g dry_run
               (write_loop P folder g dry_run before w)
        else write_loop P folder g dry_run before w) \<and>
   (stem \<noteq> [] \<longrightarrow> lower (suffix (Path folder (stem @ ''.MP3''))) = ''.mp3'')"
  by (simp add: write_loop_append suffix_upper_mp3 Let_def VALID_EXTENSIONS_def)

theorem writer_invoked_iff_audio_extension_witness:
  "''Song'' \<noteq> [] \<and> lower (suffix (Path ''/music/Album'' ''Song.MP3'')) = ''.mp3'' \<and>
   write_loop journal_platform ''/music/Album'' (- 3) False [''cover.jpg'', ''Song.MP3'', ''notes.txt''] empty_world =
     write_gain journal_platform (Path ''/music/Album'' ''Song.MP3'') (- 3) False empty_world"
  using writer_invoked_iff_audio_extension
    [of journal_platform "''/music/Album''" "- 3" False "[''cover.jpg'']" "''Song.MP3''" "[''notes.txt'']" empty_world "''Song''"]
  by (simp add: suffix_def lower_def lower_char_def VALID_EXTENSIONS_def Let_def)

section \<open>The worker count\<close>

text \<open>
  C7. The worker count is not at least 2 for every available parallelism: with one CPU
  reported, \<^verbatim>\<open>os.cpu_count() or 2\<close> is 1.
\<close>

theorem num_threads_one_cpu: "\<not> 2 \<le> num_threads (Some 1)"
  by (simp add: num_threads_def py_or_def)

text \<open>
  C7, as the code has it. 2 is the fallback for an unknown (or zero) CPU count, not a
  minimum: a known non-zero count is used as it is, so a positive count gives at least one
  worker.
\<close>

theorem num_threads_fallback:
  "num_threads None = 2 \<and> num_threads (Some 0) = 2 \<and>
   (n \<noteq> 0 \<longrightarrow> num_threads (Some n) = n) \<and>
   (1 \<le> n \<longrightarrow> 1 \<le> num_threads (Some n))"
  by (simp add: num_threads_def py_or_def)

theorem num_threads_fallback_witness:
  "(4::int) \<noteq> 0 \<and> (1::int) \<le> 4 \<and> num_threads (Some 4) = 4 \<and> 1 \<le> num_threads (Some 4)"
  using num_threads_fallback [of 4] by simp

section \<open>The dry run\<close>

text \<open>
  C4. With the dry-run flag set, \<^verbatim>\<open>write_gain\<close> returns the world it was given: the
  store of audio files and the log are unchanged, for every platform, file and gain. So a
  dry run of \<^verbatim>\<open>process_album\<close> leaves the store of audio files as it was, whatever the
  report decides.
\<close>

theorem write_gain_dry_run_no_mutation:
  "write_gain P file_path gain_db True w = w \<and>
   disk (process_album P a True w) = disk w"
  by (simp add: write_gain_def process_album_dry_run_disk)

end
